theory Spec2Isabelle
  imports Complex_Main
begin

section \<open>JSON values and the JavaScript coercions the dashboard relies on\<close>

text \<open>
  The dashboard (\<^verbatim>\<open>frontend/src/App.js\<close>) stores whatever \<^verbatim>\<open>response.json()\<close>
  delivers, so the state is modelled over JSON values. Numbers are rationals: the only
  thing the code asks of a number is whether it is falsy, and \<^verbatim>\<open>JSON.parse\<close>
  never yields \<^verbatim>\<open>NaN\<close>.
\<close>

datatype json =
    JNull
  | JBool bool
  | JNum rat
  | JStr string
  | JArr "json list"
  | JObj "(string \<times> json) list"

text \<open>What a rejected promise or a failing expression throws.\<close>

datatype exn = TypeError | SyntaxError | NetworkError

text \<open>JavaScript truthiness, as used by \<^verbatim>\<open>x || d\<close>.\<close>

fun truthy :: "json \<Rightarrow> bool" where
  "truthy JNull = False"
| "truthy (JBool b) = b"
| "truthy (JNum n) = (n \<noteq> 0)"
| "truthy (JStr s) = (s \<noteq> [])"
| "truthy (JArr xs) = True"
| "truthy (JObj kvs) = True"

text \<open>
  Property access \<^verbatim>\<open>v.k\<close> for the keys the code reads (\<^verbatim>\<open>total_employees\<close>,
  \<^verbatim>\<open>detail\<close>, ...; none of them is a built-in property of a string, array, number or
  boolean). On \<^verbatim>\<open>null\<close> it throws a TypeError; on an object it is the last entry
  with that key (\<^verbatim>\<open>JSON.parse\<close> keeps the last duplicate); anywhere else it is
  \<^verbatim>\<open>undefined\<close>, which is \<open>None\<close> here.
\<close>

fun get_prop :: "json \<Rightarrow> string \<Rightarrow> exn + json option" where
  "get_prop JNull k = Inl TypeError"
| "get_prop (JObj kvs) k = Inr (map_of (rev kvs) k)"
| "get_prop (JBool b) k = Inr None"
| "get_prop (JNum n) k = Inr None"
| "get_prop (JStr s) k = Inr None"
| "get_prop (JArr xs) k = Inr None"

text \<open>\<^verbatim>\<open>x || d\<close> where \<^verbatim>\<open>x\<close> may be \<^verbatim>\<open>undefined\<close>.\<close>

fun or_default :: "json option \<Rightarrow> json \<Rightarrow> json" where
  "or_default None d = d"
| "or_default (Some v) d = (if truthy v then v else d)"

section \<open>The component state\<close>

record stats =
  total_employees :: json
  active_employees :: json
  last_run :: json
  next_run :: json
  total_hours_added_this_week :: json
  total_hours_added_this_month :: json

text \<open>The nine \<^verbatim>\<open>useState\<close> cells of \<^verbatim>\<open>Dashboard\<close> (lines 8-23).\<close>

record dashboard =
  stats :: stats
  employees :: json
  config :: json
  logs :: json
  loading :: bool
  activeTab :: string
  showAddEmployee :: bool
  newEmployeeId :: string
  editingEmployee :: json

definition initial :: dashboard where
  "initial = \<lparr> stats = \<lparr> total_employees = JNum 0, active_employees = JNum 0,
                          last_run = JNull, next_run = JNull,
                          total_hours_added_this_week = JNum 0,
                          total_hours_added_this_month = JNum 0 \<rparr>,
               employees = JArr [], config = JNull, logs = JArr [], loading = True,
               activeTab = ''overview'', showAddEmployee = False, newEmployeeId = [],
               editingEmployee = JNull \<rparr>"

text \<open>The Snapshot of the specification: the four slices filled from the server.\<close>

definition snapshot :: "dashboard \<Rightarrow> stats \<times> json \<times> json \<times> json" where
  "snapshot st = (stats st, employees st, config st, logs st)"

section \<open>Requests, responses and the actions a handler performs\<close>

text \<open>
  The nine calls of the code. The URL and the headers are fixed by the constructor; an
  employee id appears in the URL as the value the handler was given.
\<close>

datatype request =
    GET_stats
  | GET_employees
  | GET_config
  | GET_logs nat
  | POST_employees json
  | PATCH_employee json json
  | DELETE_employee json
  | PUT_config json
  | POST_trigger_update

text \<open>
  A response that was obtained: its \<^verbatim>\<open>ok\<close> flag and what \<^verbatim>\<open>json()\<close> resolves to
  (\<open>None\<close> when the body does not parse and \<^verbatim>\<open>json()\<close> rejects). A \<^verbatim>\<open>fetch\<close>
  that rejects (no response) is \<open>None\<close> of type \<open>response option\<close>.
\<close>

datatype response = Response (ok: bool) (json_body: "json option")

text \<open>
  The text handed to \<^verbatim>\<open>alert\<close>, \<^verbatim>\<open>window.confirm\<close> and \<^verbatim>\<open>console.error\<close>. The
  literals of the code are Polish; each is one constructor. \<open>CannotAddEmployee d\<close> is
  the template "Nie mozna dodac pracownika: " followed by \<open>d\<close>, where \<open>d\<close> is
  \<^verbatim>\<open>error.detail\<close> or the literal "Sprawdz ID." (\<open>CheckId\<close>).
\<close>

datatype detail = ServerDetail json | CheckId

datatype message =
    ErrorFetchingData
  | ErrorAddingEmployee
  | ErrorUpdatingEmployee
  | ErrorDeletingEmployee
  | ErrorUpdatingConfig
  | ErrorTriggeringUpdate
  | CannotAddEmployee detail
  | ServerConnectionError
  | ConfigUpdated
  | UpdateTriggered
  | ConfirmDeleteEmployee
  | ConfirmTriggerUpdate

text \<open>
  What an async function does, in program order: network calls, suspension points
  (\<^verbatim>\<open>await\<close>), dialogs, log lines, state setter calls and the un-awaited call
  \<^verbatim>\<open>fetchData()\<close> that starts a refresh cycle.
\<close>

datatype action =
    Fetch request
  | Await
  | Confirm message
  | Alert message
  | ConsoleError message
  | SetStats stats
  | SetEmployees json
  | SetConfig json
  | SetLogs json
  | SetLoading bool
  | SetShowAddEmployee bool
  | SetNewEmployeeId string
  | SetEditingEmployee json
  | CallFetchData

fun apply_action :: "action \<Rightarrow> dashboard \<Rightarrow> dashboard" where
  "apply_action (SetStats v) st = st\<lparr>stats := v\<rparr>"
| "apply_action (SetEmployees v) st = st\<lparr>employees := v\<rparr>"
| "apply_action (SetConfig v) st = st\<lparr>config := v\<rparr>"
| "apply_action (SetLogs v) st = st\<lparr>logs := v\<rparr>"
| "apply_action (SetLoading b) st = st\<lparr>loading := b\<rparr>"
| "apply_action (SetShowAddEmployee b) st = st\<lparr>showAddEmployee := b\<rparr>"
| "apply_action (SetNewEmployeeId s) st = st\<lparr>newEmployeeId := s\<rparr>"
| "apply_action (SetEditingEmployee v) st = st\<lparr>editingEmployee := v\<rparr>"
| "apply_action (Fetch r) st = st"
| "apply_action Await st = st"
| "apply_action (Confirm m) st = st"
| "apply_action (Alert m) st = st"
| "apply_action (ConsoleError m) st = st"
| "apply_action CallFetchData st = st"

text \<open>The state after the actions of a trace, applied left to right.\<close>

definition exec :: "action list \<Rightarrow> dashboard \<Rightarrow> dashboard" where
  "exec tr st = fold apply_action tr st"

fun is_setter :: "action \<Rightarrow> bool" where
  "is_setter (SetStats v) = True"
| "is_setter (SetEmployees v) = True"
| "is_setter (SetConfig v) = True"
| "is_setter (SetLogs v) = True"
| "is_setter (SetLoading b) = True"
| "is_setter (SetShowAddEmployee b) = True"
| "is_setter (SetNewEmployeeId s) = True"
| "is_setter (SetEditingEmployee v) = True"
| "is_setter (Fetch r) = False"
| "is_setter Await = False"
| "is_setter (Confirm m) = False"
| "is_setter (Alert m) = False"
| "is_setter (ConsoleError m) = False"
| "is_setter CallFetchData = False"

fun is_fetch :: "action \<Rightarrow> bool" where
  "is_fetch (Fetch r) = True"
| "is_fetch a = False"

text \<open>
  The body of a \<^verbatim>\<open>try\<close> block: the actions performed, and the exception that ended
  it, if any.
\<close>

type_synonym run = "action list \<times> exn option"

definition then_run :: "run \<Rightarrow> run \<Rightarrow> run" where
  "then_run p q = (case snd p of None \<Rightarrow> (fst p @ fst q, snd q) | Some e \<Rightarrow> p)"

definition try_catch :: "run \<Rightarrow> action list \<Rightarrow> action list" where
  "try_catch p handler = (case snd p of None \<Rightarrow> fst p | Some e \<Rightarrow> fst p @ handler)"

text \<open>\<^verbatim>\<open>k (await r.json())\<close>: suspend, then continue with the body or throw.\<close>

definition await_json :: "response \<Rightarrow> (json \<Rightarrow> run) \<Rightarrow> run" where
  "await_json r k =
     (case json_body r of
        None \<Rightarrow> ([Await], Some SyntaxError)
      | Some v \<Rightarrow> then_run ([Await], None) (k v))"

section \<open>fetchData (lines 26-69)\<close>

text \<open>The object literal of lines 42-49, built from \<^verbatim>\<open>statsData\<close>.\<close>

definition stats_of_statsData :: "json \<Rightarrow> exn + stats" where
  "stats_of_statsData statsData =
     (case get_prop statsData ''total_employees'' of
        Inl e \<Rightarrow> Inl e
      | Inr te \<Rightarrow>
     (case get_prop statsData ''active_employees'' of
        Inl e \<Rightarrow> Inl e
      | Inr ae \<Rightarrow>
     (case get_prop statsData ''last_run'' of
        Inl e \<Rightarrow> Inl e
      | Inr lr \<Rightarrow>
     (case get_prop statsData ''next_run'' of
        Inl e \<Rightarrow> Inl e
      | Inr nr \<Rightarrow>
     (case get_prop statsData ''total_hours_added_this_week'' of
        Inl e \<Rightarrow> Inl e
      | Inr hw \<Rightarrow>
     (case get_prop statsData ''total_hours_added_this_month'' of
        Inl e \<Rightarrow> Inl e
      | Inr hm \<Rightarrow>
          Inr \<lparr> total_employees = or_default te (JNum 0),
                active_employees = or_default ae (JNum 0),
                last_run = or_default lr JNull,
                next_run = or_default nr JNull,
                total_hours_added_this_week = or_default hw (JNum 0),
                total_hours_added_this_month = or_default hm (JNum 0) \<rparr>))))))"

text \<open>
  The four responses of one cycle, in the order of the \<^verbatim>\<open>Promise.all\<close> array:
  stats, employees, config, logs.
\<close>

type_synonym reads = "response option \<times> response option \<times> response option \<times> response option"

text \<open>\<^verbatim>\<open>Promise.all\<close> rejects as soon as one of the four promises rejects.\<close>

fun promise_all :: "reads \<Rightarrow> (response \<times> response \<times> response \<times> response) option" where
  "promise_all (Some s, Some e, Some c, Some l) = Some (s, e, c, l)"
| "promise_all rs = None"

text \<open>The four \<^verbatim>\<open>if (xRes.ok) { setX(await xRes.json()) }\<close> blocks of lines 40-62.\<close>

definition stats_block :: "response \<Rightarrow> run" where
  "stats_block statsRes =
     (if ok statsRes
      then await_json statsRes (\<lambda>statsData.
             case stats_of_statsData statsData of
               Inl e \<Rightarrow> ([], Some e)
             | Inr v \<Rightarrow> ([SetStats v], None))
      else ([], None))"

definition employees_block :: "response \<Rightarrow> run" where
  "employees_block employeesRes =
     (if ok employeesRes
      then await_json employeesRes (\<lambda>v. ([SetEmployees v], None))
      else ([], None))"

definition config_block :: "response \<Rightarrow> run" where
  "config_block configRes =
     (if ok configRes
      then await_json configRes (\<lambda>v. ([SetConfig v], None))
      else ([], None))"

definition logs_block :: "response \<Rightarrow> run" where
  "logs_block logsRes =
     (if ok logsRes
      then await_json logsRes (\<lambda>v. ([SetLogs v], None))
      else ([], None))"

definition fetchData_try :: "reads \<Rightarrow> run" where
  "fetchData_try rs =
     then_run ([Fetch GET_stats, Fetch GET_employees, Fetch GET_config, Fetch (GET_logs 50),
                Await], None)
     (case promise_all rs of
        None \<Rightarrow> ([], Some NetworkError)
      | Some (statsRes, employeesRes, configRes, logsRes) \<Rightarrow>
          then_run (stats_block statsRes)
         (then_run (employees_block employeesRes)
         (then_run (config_block configRes)
         (then_run (logs_block logsRes)
            ([SetLoading False], None)))))"

definition fetchData :: "reads \<Rightarrow> action list" where
  "fetchData rs = try_catch (fetchData_try rs) [ConsoleError ErrorFetchingData, SetLoading False]"

section \<open>The write handlers (lines 78-183)\<close>

text \<open>
  Each handler takes what the world answers: the response to its one write
  (\<open>None\<close> when \<^verbatim>\<open>fetch\<close> rejects) and, for the two guarded handlers, the
  operator's answer to \<^verbatim>\<open>window.confirm\<close>.
\<close>

definition addEmployee :: "dashboard \<Rightarrow> response option \<Rightarrow> action list" where
  "addEmployee st res =
     try_catch
       (then_run
          ([Fetch (POST_employees (JObj [(''employee_id'', JStr (newEmployeeId st))])), Await],
           None)
          (case res of
             None \<Rightarrow> ([], Some NetworkError)
           | Some response \<Rightarrow>
               if ok response
               then ([SetShowAddEmployee False, SetNewEmployeeId [], CallFetchData], None)
               else await_json response (\<lambda>error.
                      case get_prop error ''detail'' of
                        Inl e \<Rightarrow> ([], Some e)
                      | Inr d \<Rightarrow>
                          ([Alert (CannotAddEmployee
                                     (case d of
                                        None \<Rightarrow> CheckId
                                      | Some v \<Rightarrow> if truthy v then ServerDetail v else CheckId))],
                           None))))
       [ConsoleError ErrorAddingEmployee, Alert ServerConnectionError]"

definition updateEmployee :: "json \<Rightarrow> json \<Rightarrow> response option \<Rightarrow> action list" where
  "updateEmployee eid updates res =
     try_catch
       (then_run ([Fetch (PATCH_employee eid updates), Await], None)
          (case res of
             None \<Rightarrow> ([], Some NetworkError)
           | Some response \<Rightarrow>
               if ok response then ([SetEditingEmployee JNull, CallFetchData], None)
               else ([], None)))
       [ConsoleError ErrorUpdatingEmployee]"

definition deleteEmployee :: "json \<Rightarrow> bool \<Rightarrow> response option \<Rightarrow> action list" where
  "deleteEmployee eid confirmed res =
     Confirm ConfirmDeleteEmployee #
     (if \<not> confirmed then []
      else try_catch
             (then_run ([Fetch (DELETE_employee eid), Await], None)
                (case res of
                   None \<Rightarrow> ([], Some NetworkError)
                 | Some response \<Rightarrow>
                     if ok response then ([CallFetchData], None) else ([], None)))
             [ConsoleError ErrorDeletingEmployee])"

definition updateConfig :: "json \<Rightarrow> response option \<Rightarrow> action list" where
  "updateConfig newConfig res =
     try_catch
       (then_run ([Fetch (PUT_config newConfig), Await], None)
          (case res of
             None \<Rightarrow> ([], Some NetworkError)
           | Some response \<Rightarrow>
               if ok response then ([CallFetchData, Alert ConfigUpdated], None)
               else ([], None)))
       [ConsoleError ErrorUpdatingConfig]"

definition triggerUpdate :: "bool \<Rightarrow> response option \<Rightarrow> action list" where
  "triggerUpdate confirmed res =
     Confirm ConfirmTriggerUpdate #
     (if \<not> confirmed then []
      else try_catch
             (then_run ([Fetch POST_trigger_update, Await], None)
                (case res of
                   None \<Rightarrow> ([], Some NetworkError)
                 | Some response \<Rightarrow>
                     if ok response then ([Alert UpdateTriggered], None) else ([], None)))
             [ConsoleError ErrorTriggeringUpdate])"

text \<open>
  The toggle button of a row that is not being edited (line 428):
  \<^verbatim>\<open>updateEmployee(employee.id, { active: !employee.active })\<close>, for the row's id and
  the truthiness of its \<^verbatim>\<open>active\<close> field.
\<close>

definition toggleActive :: "json \<Rightarrow> bool \<Rightarrow> response option \<Rightarrow> action list" where
  "toggleActive eid active res = updateEmployee eid (JObj [(''active'', JBool (\<not> active))]) res"

section \<open>What a read delivers\<close>

text \<open>
  A read completes with a non-success status when a response was obtained and its
  \<^verbatim>\<open>ok\<close> flag is false. A read succeeds when the response is \<^verbatim>\<open>ok\<close> and
  \<^verbatim>\<open>json()\<close> resolves: \<open>fetched\<close> is then the payload. For the stats read the payload
  must also admit the property reads of lines 43-48 (it is not \<^verbatim>\<open>null\<close>):
  \<open>fetched_stats\<close> is then the object that \<^verbatim>\<open>setStats\<close> receives.
\<close>

definition non_success :: "response option \<Rightarrow> bool" where
  "non_success res = (case res of None \<Rightarrow> False | Some r \<Rightarrow> \<not> ok r)"

definition fetched :: "response option \<Rightarrow> json option" where
  "fetched res = (case res of None \<Rightarrow> None | Some r \<Rightarrow> if ok r then json_body r else None)"

definition fetched_stats :: "response option \<Rightarrow> stats option" where
  "fetched_stats res =
     (case fetched res of
        None \<Rightarrow> None
      | Some statsData \<Rightarrow>
          (case stats_of_statsData statsData of Inl e \<Rightarrow> None | Inr v \<Rightarrow> Some v))"

text \<open>
  What the Snapshot is to hold for field \<open>k\<close> of a fetched stats payload (specification,
  4.2: a field that is absent or null defaults to 0 for the counters and to null for the
  timestamps; \<^verbatim>\<open>||\<close> defaults every falsy entry): the payload's own entry, the last
  with that key, unless it is missing, \<^verbatim>\<open>null\<close>, \<^verbatim>\<open>false\<close>, \<^verbatim>\<open>0\<close> or the empty
  string. It is written without the coercions of the code, to compare them with.
\<close>

definition field_or :: "json \<Rightarrow> string \<Rightarrow> json \<Rightarrow> json" where
  "field_or payload k d =
     (case payload of
        JObj kvs \<Rightarrow> (case map_of (rev kvs) k of
                      None \<Rightarrow> d
                    | Some v \<Rightarrow> if v = JNull \<or> v = JBool False \<or> v = JNum 0 \<or> v = JStr [] then d else v)
      | _ \<Rightarrow> d)"

text \<open>The stats read succeeds with a payload whose fields can be read.\<close>

definition stats_delivered :: "response option \<Rightarrow> bool" where
  "stats_delivered res = (case fetched res of None \<Rightarrow> False | Some payload \<Rightarrow> payload \<noteq> JNull)"

text \<open>The four responses of a cycle, by name.\<close>

fun statsRes_of :: "reads \<Rightarrow> response option" where
  "statsRes_of (s, e, c, l) = s"

fun employeesRes_of :: "reads \<Rightarrow> response option" where
  "employeesRes_of (s, e, c, l) = e"

fun configRes_of :: "reads \<Rightarrow> response option" where
  "configRes_of (s, e, c, l) = c"

fun logsRes_of :: "reads \<Rightarrow> response option" where
  "logsRes_of (s, e, c, l) = l"

text \<open>
  The actions every cycle performs whatever the server answers: the four requests, the
  suspension points, the log line of the \<^verbatim>\<open>catch\<close> block and
  \<^verbatim>\<open>setLoading(false)\<close>.
\<close>

definition fixed_action :: "action \<Rightarrow> bool" where
  "fixed_action a =
     (a \<in> {Fetch GET_stats, Fetch GET_employees, Fetch GET_config, Fetch (GET_logs 50), Await,
            ConsoleError ErrorFetchingData, SetLoading False})"

section \<open>Observers used by the statements\<close>

fun is_alert :: "action \<Rightarrow> bool" where
  "is_alert (Alert m) = True"
| "is_alert a = False"

text \<open>
  A trace starts no refresh cycle and calls no state setter.
\<close>

definition no_refresh_no_mutation :: "action list \<Rightarrow> bool" where
  "no_refresh_no_mutation tr = (count_list tr CallFetchData = 0 \<and> filter is_setter tr = [])"

text \<open>
  The ids of the rows the employees table renders (line 369:
  \<^verbatim>\<open>employees.map((employee) => ... employee.id ...)\<close>), for an employee list that
  is an array; rows without an \<^verbatim>\<open>id\<close> contribute none.
\<close>

definition row_ids :: "json \<Rightarrow> json list" where
  "row_ids emps =
     (case emps of
        JArr es \<Rightarrow> List.map_filter (\<lambda>employee. case get_prop employee ''id'' of
                                                      Inl x \<Rightarrow> None | Inr v \<Rightarrow> v) es
      | _ \<Rightarrow> [])"

section \<open>Two concrete cycles\<close>

text \<open>Sample server answers, used to evaluate the code on concrete inputs.\<close>

definition employee_row :: "rat \<Rightarrow> string \<Rightarrow> json" where
  "employee_row n name =
     JObj [(''id'', JNum n), (''name'', JStr name), (''multiplier'', JNum 2), (''active'', JBool True)]"

definition first_cycle :: reads where
  "first_cycle =
     (Some (Response True (Some (JObj [(''total_employees'', JNum 1)]))),
      Some (Response True (Some (JArr [employee_row 1 ''Ann'']))),
      Some (Response True (Some (JObj [(''dry_run'', JBool True)]))),
      Some (Response True (Some (JArr []))))"

definition second_cycle :: reads where
  "second_cycle =
     (Some (Response True (Some (JObj [(''total_employees'', JNum 2)]))),
      Some (Response True (Some (JArr [employee_row 2 ''Bob'', employee_row 3 ''Cyd'']))),
      Some (Response True (Some (JObj [(''dry_run'', JBool False)]))),
      Some (Response True (Some (JArr [JObj [(''id'', JNum 1)]]))))"

section \<open>Basic facts\<close>

lemma exec_Nil: "exec [] st = st"
  by (simp add: exec_def)

lemma exec_Cons: "exec (a # tr) st = exec tr (apply_action a st)"
  by (simp add: exec_def)

lemma exec_append: "exec (tr @ tr') st = exec tr' (exec tr st)"
  by (simp add: exec_def)

lemma then_run_Normal: "then_run (tr, None) q = (tr @ fst q, snd q)"
  by (simp add: then_run_def)

lemma then_run_Thrown: "then_run (tr, Some x) q = (tr, Some x)"
  by (simp add: then_run_def)

lemma try_catch_Normal: "try_catch (tr, None) h = tr"
  by (simp add: try_catch_def)

lemma try_catch_Thrown: "try_catch (tr, Some x) h = tr @ h"
  by (simp add: try_catch_def)

lemmas run_simps = then_run_Normal then_run_Thrown try_catch_Normal try_catch_Thrown

lemma exec_no_setter: "filter is_setter tr = [] \<Longrightarrow> exec tr st = st"
proof (induction tr arbitrary: st)
  case Nil
  then show ?case by (simp add: exec_Nil)
next
  case (Cons a tr)
  then show ?case by (cases a) (simp_all add: exec_Cons split: if_splits)
qed

section \<open>Transport failure of a read (C2)\<close>

lemma promise_all_None:
  "statsRes = None \<or> employeesRes = None \<or> configRes = None \<or> logsRes = None
   \<Longrightarrow> promise_all (statsRes, employeesRes, configRes, logsRes) = None"
  by (cases statsRes; cases employeesRes; cases configRes; cases logsRes) auto

text \<open>
  C2. When any of the four reads fails at the transport level (its \<^verbatim>\<open>fetch\<close> rejects,
  no response), the cycle fails as a whole: after the four requests the only actions are
  the log line and \<^verbatim>\<open>setLoading(false)\<close>, and the Snapshot (stats, employees, config,
  logs) after the cycle equals the Snapshot before it.
\<close>

theorem fetchData_transport_failure_keeps_snapshot:
  assumes "statsRes = None \<or> employeesRes = None \<or> configRes = None \<or> logsRes = None"
  shows "fetchData (statsRes, employeesRes, configRes, logsRes) =
           [Fetch GET_stats, Fetch GET_employees, Fetch GET_config, Fetch (GET_logs 50), Await,
            ConsoleError ErrorFetchingData, SetLoading False]
         \<and> snapshot (exec (fetchData (statsRes, employeesRes, configRes, logsRes)) st) = snapshot st"
proof -
  have tr: "fetchData (statsRes, employeesRes, configRes, logsRes) =
           [Fetch GET_stats, Fetch GET_employees, Fetch GET_config, Fetch (GET_logs 50), Await,
            ConsoleError ErrorFetchingData, SetLoading False]"
    using promise_all_None [OF assms]
    by (simp add: fetchData_def fetchData_try_def then_run_def try_catch_def)
  show ?thesis
    unfolding tr by (simp add: exec_def snapshot_def)
qed

theorem fetchData_transport_failure_witness:
  "snapshot (exec (fetchData (Some (Response True (Some (JObj [(''total_employees'', JNum 3)]))),
                              None,
                              Some (Response True (Some JNull)),
                              Some (Response False None))) initial)
   = snapshot initial"
proof -
  have h: "Some (Response True (Some (JObj [(''total_employees'', JNum 3)]))) = None
           \<or> (None :: response option) = None
           \<or> Some (Response True (Some JNull)) = None
           \<or> Some (Response False None) = None"
    by simp
  from fetchData_transport_failure_keeps_snapshot [OF h]
  show ?thesis by (rule conjunct2)
qed

section \<open>A read with a non-success status (C1)\<close>

lemma delivered_Some:
  "non_success res \<or> fetched res \<noteq> None \<Longrightarrow> \<exists>r. res = Some r"
  by (cases res) (auto simp: non_success_def fetched_def)

lemma delivered_stats_Some:
  "non_success res \<or> fetched_stats res \<noteq> None \<Longrightarrow> \<exists>r. res = Some r"
  by (cases res) (auto simp: non_success_def fetched_def fetched_stats_def)

lemma stats_block_delivered:
  assumes "non_success (Some r) \<or> fetched_stats (Some r) \<noteq> None"
  shows "stats_block r =
           (if non_success (Some r) then [] else [Await, SetStats (the (fetched_stats (Some r)))], None)"
  using assms
  by (auto simp: stats_block_def await_json_def non_success_def fetched_def fetched_stats_def
                 run_simps split: option.splits sum.splits)

lemma employees_block_delivered:
  assumes "non_success (Some r) \<or> fetched (Some r) \<noteq> None"
  shows "employees_block r =
           (if non_success (Some r) then [] else [Await, SetEmployees (the (fetched (Some r)))], None)"
  using assms
  by (auto simp: employees_block_def await_json_def non_success_def fetched_def run_simps)

lemma config_block_delivered:
  assumes "non_success (Some r) \<or> fetched (Some r) \<noteq> None"
  shows "config_block r =
           (if non_success (Some r) then [] else [Await, SetConfig (the (fetched (Some r)))], None)"
  using assms
  by (auto simp: config_block_def await_json_def non_success_def fetched_def run_simps)

lemma logs_block_delivered:
  assumes "non_success (Some r) \<or> fetched (Some r) \<noteq> None"
  shows "logs_block r =
           (if non_success (Some r) then [] else [Await, SetLogs (the (fetched (Some r)))], None)"
  using assms
  by (auto simp: logs_block_def await_json_def non_success_def fetched_def run_simps)

lemma fetchData_all_delivered:
  assumes s: "non_success s \<or> fetched_stats s \<noteq> None"
      and e: "non_success e \<or> fetched e \<noteq> None"
      and c: "non_success c \<or> fetched c \<noteq> None"
      and l: "non_success l \<or> fetched l \<noteq> None"
  shows "fetchData (s, e, c, l) =
           [Fetch GET_stats, Fetch GET_employees, Fetch GET_config, Fetch (GET_logs 50), Await]
           @ (if non_success s then [] else [Await, SetStats (the (fetched_stats s))])
           @ (if non_success e then [] else [Await, SetEmployees (the (fetched e))])
           @ (if non_success c then [] else [Await, SetConfig (the (fetched c))])
           @ (if non_success l then [] else [Await, SetLogs (the (fetched l))])
           @ [SetLoading False]"
proof -
  from delivered_stats_Some [OF s] obtain rs where rs: "s = Some rs" ..
  from delivered_Some [OF e] obtain re where re: "e = Some re" ..
  from delivered_Some [OF c] obtain rc where rc: "c = Some rc" ..
  from delivered_Some [OF l] obtain rl where rl: "l = Some rl" ..
  show ?thesis
    unfolding rs re rc rl fetchData_def fetchData_try_def
    by (simp only: promise_all.simps option.case prod.case
          stats_block_delivered [OF s [unfolded rs]]
          employees_block_delivered [OF e [unfolded re]]
          config_block_delivered [OF c [unfolded rc]]
          logs_block_delivered [OF l [unfolded rl]]
          run_simps fst_conv snd_conv append_assoc)
qed

lemma exec_slice:
  "exec (if b then [] else [Await, a]) st = (if b then st else apply_action a st)"
  by (simp add: exec_def)

lemma truthy_iff: "truthy v = (\<not> (v = JNull \<or> v = JBool False \<or> v = JNum 0 \<or> v = JStr []))"
  by (cases v) auto

lemma or_default_get_prop:
  "get_prop payload k = Inr x \<Longrightarrow> or_default x d = field_or payload k d"
  by (cases payload; cases x) (auto simp: field_or_def truthy_iff)

lemma get_prop_defined: "payload \<noteq> JNull \<Longrightarrow> \<exists>x. get_prop payload k = Inr x"
  by (cases payload) auto

lemma stats_of_statsData_fields:
  assumes "payload \<noteq> JNull"
  shows "stats_of_statsData payload =
           Inr \<lparr> total_employees = field_or payload ''total_employees'' (JNum 0),
                 active_employees = field_or payload ''active_employees'' (JNum 0),
                 last_run = field_or payload ''last_run'' JNull,
                 next_run = field_or payload ''next_run'' JNull,
                 total_hours_added_this_week =
                   field_or payload ''total_hours_added_this_week'' (JNum 0),
                 total_hours_added_this_month =
                   field_or payload ''total_hours_added_this_month'' (JNum 0) \<rparr>"
proof -
  obtain te where te: "get_prop payload ''total_employees'' = Inr te"
    using get_prop_defined [OF assms] by blast
  obtain ae where ae: "get_prop payload ''active_employees'' = Inr ae"
    using get_prop_defined [OF assms] by blast
  obtain lr where lr: "get_prop payload ''last_run'' = Inr lr"
    using get_prop_defined [OF assms] by blast
  obtain nr where nr: "get_prop payload ''next_run'' = Inr nr"
    using get_prop_defined [OF assms] by blast
  obtain hw where hw: "get_prop payload ''total_hours_added_this_week'' = Inr hw"
    using get_prop_defined [OF assms] by blast
  obtain hm where hm: "get_prop payload ''total_hours_added_this_month'' = Inr hm"
    using get_prop_defined [OF assms] by blast
  show ?thesis
    unfolding stats_of_statsData_def te ae lr nr hw hm
    by (simp add: or_default_get_prop [OF te] or_default_get_prop [OF ae]
          or_default_get_prop [OF lr] or_default_get_prop [OF nr]
          or_default_get_prop [OF hw] or_default_get_prop [OF hm])
qed

lemma stats_delivered_fetched_stats:
  assumes "stats_delivered s"
  shows "fetched_stats s =
           Some \<lparr> total_employees = field_or (the (fetched s)) ''total_employees'' (JNum 0),
                  active_employees = field_or (the (fetched s)) ''active_employees'' (JNum 0),
                  last_run = field_or (the (fetched s)) ''last_run'' JNull,
                  next_run = field_or (the (fetched s)) ''next_run'' JNull,
                  total_hours_added_this_week =
                    field_or (the (fetched s)) ''total_hours_added_this_week'' (JNum 0),
                  total_hours_added_this_month =
                    field_or (the (fetched s)) ''total_hours_added_this_month'' (JNum 0) \<rparr>"
proof -
  from assms obtain payload where p: "fetched s = Some payload" "payload \<noteq> JNull"
    by (auto simp: stats_delivered_def split: option.splits)
  show ?thesis
    unfolding fetched_stats_def p(1) by (simp add: stats_of_statsData_fields [OF p(2)])
qed

text \<open>
  C1, as the code has it. In a cycle where exactly one of the four reads (stats,
  employees, config, logs) completes with a non-success status and each of the other
  three is answered with a success status and a body that parses (for stats, a payload
  other than \<^verbatim>\<open>null\<close>), the Snapshot after the cycle holds the newly fetched value in
  each of the three succeeding slices and the value from before the cycle in the fourth.
  The new stats are the six fields of the payload, each replaced by its default (0 for
  the counters, null for the timestamps) when it is missing or falsy.
\<close>

theorem partial_failure_isolation:
  assumes "(non_success s \<and> fetched e \<noteq> None \<and> fetched c \<noteq> None \<and> fetched l \<noteq> None)
         \<or> (stats_delivered s \<and> non_success e \<and> fetched c \<noteq> None \<and> fetched l \<noteq> None)
         \<or> (stats_delivered s \<and> fetched e \<noteq> None \<and> non_success c \<and> fetched l \<noteq> None)
         \<or> (stats_delivered s \<and> fetched e \<noteq> None \<and> fetched c \<noteq> None \<and> non_success l)"
  shows "snapshot (exec (fetchData (s, e, c, l)) st) =
           (if non_success s then stats st
            else \<lparr> total_employees = field_or (the (fetched s)) ''total_employees'' (JNum 0),
                   active_employees = field_or (the (fetched s)) ''active_employees'' (JNum 0),
                   last_run = field_or (the (fetched s)) ''last_run'' JNull,
                   next_run = field_or (the (fetched s)) ''next_run'' JNull,
                   total_hours_added_this_week =
                     field_or (the (fetched s)) ''total_hours_added_this_week'' (JNum 0),
                   total_hours_added_this_month =
                     field_or (the (fetched s)) ''total_hours_added_this_month'' (JNum 0) \<rparr>,
            if non_success e then employees st else the (fetched e),
            if non_success c then config st else the (fetched c),
            if non_success l then logs st else the (fetched l))"
proof -
  have sd: "non_success s \<or> stats_delivered s" using assms by blast
  then have s: "non_success s \<or> fetched_stats s \<noteq> None"
    using stats_delivered_fetched_stats [of s] by auto
  have e: "non_success e \<or> fetched e \<noteq> None" using assms by blast
  have c: "non_success c \<or> fetched c \<noteq> None" using assms by blast
  have l: "non_success l \<or> fetched l \<noteq> None" using assms by blast
  have ns: "\<not> non_success s \<Longrightarrow> stats_delivered s" using sd by blast
  show ?thesis
    unfolding fetchData_all_delivered [OF s e c l] exec_append exec_slice
    by (simp add: exec_def snapshot_def stats_delivered_fetched_stats [OF ns])
qed

theorem partial_failure_isolation_witness:
  "snapshot (exec (fetchData
       (Some (Response True (Some (JObj [(''total_employees'', JNum 3),
                                         (''active_employees'', JNum 0),
                                         (''last_run'', JStr ''2024-05-01T08:00:00''),
                                         (''next_run'', JNull),
                                         (''total_hours_added_this_week'', JNum (5 / 2))]))),
        Some (Response False (Some (JStr ''boom''))),
        Some (Response True (Some (JObj [(''dry_run'', JBool True)]))),
        Some (Response True (Some (JArr [JObj [(''id'', JNum 1)]]))))) initial)
   = (\<lparr> total_employees = JNum 3, active_employees = JNum 0,
         last_run = JStr ''2024-05-01T08:00:00'', next_run = JNull,
         total_hours_added_this_week = JNum (5 / 2),
         total_hours_added_this_month = JNum 0 \<rparr>,
      employees initial, JObj [(''dry_run'', JBool True)], JArr [JObj [(''id'', JNum 1)]])"
proof -
  let ?s = "Some (Response True (Some (JObj [(''total_employees'', JNum 3),
                                         (''active_employees'', JNum 0),
                                         (''last_run'', JStr ''2024-05-01T08:00:00''),
                                         (''next_run'', JNull),
                                         (''total_hours_added_this_week'', JNum (5 / 2))])))"
  let ?e = "Some (Response False (Some (JStr ''boom'')))"
  let ?c = "Some (Response True (Some (JObj [(''dry_run'', JBool True)])))"
  let ?l = "Some (Response True (Some (JArr [JObj [(''id'', JNum 1)]])))"
  have h: "(non_success ?s \<and> fetched ?e \<noteq> None \<and> fetched ?c \<noteq> None \<and> fetched ?l \<noteq> None)
         \<or> (stats_delivered ?s \<and> non_success ?e \<and> fetched ?c \<noteq> None \<and> fetched ?l \<noteq> None)
         \<or> (stats_delivered ?s \<and> fetched ?e \<noteq> None \<and> non_success ?c \<and> fetched ?l \<noteq> None)
         \<or> (stats_delivered ?s \<and> fetched ?e \<noteq> None \<and> fetched ?c \<noteq> None \<and> non_success ?l)"
    by (simp add: stats_delivered_def non_success_def fetched_def)
  show ?thesis
    unfolding partial_failure_isolation [OF h, of initial]
    by (simp add: non_success_def fetched_def field_or_def)
qed

text \<open>
  C1 as stated fails. The employees read is the one answered with a non-success status;
  stats, config and logs are answered with a success status, the stats body being
  \<^verbatim>\<open>null\<close>. Reading \<^verbatim>\<open>statsData.total_employees\<close> throws, the \<^verbatim>\<open>catch\<close> block
  ends the cycle, and the config and logs that were fetched are never stored.
\<close>

theorem null_stats_payload_counterexample:
  "ok (Response True (Some JNull))
   \<and> \<not> ok (Response False (Some (JStr ''boom'')))
   \<and> ok (Response True (Some (JObj [(''dry_run'', JBool True)])))
   \<and> ok (Response True (Some (JArr [JObj [(''id'', JNum 1)]])))
   \<and> fetchData (Some (Response True (Some JNull)),
                 Some (Response False (Some (JStr ''boom''))),
                 Some (Response True (Some (JObj [(''dry_run'', JBool True)]))),
                 Some (Response True (Some (JArr [JObj [(''id'', JNum 1)]]))))
      = [Fetch GET_stats, Fetch GET_employees, Fetch GET_config, Fetch (GET_logs 50), Await,
         Await, ConsoleError ErrorFetchingData, SetLoading False]
   \<and> config (exec (fetchData (Some (Response True (Some JNull)),
                 Some (Response False (Some (JStr ''boom''))),
                 Some (Response True (Some (JObj [(''dry_run'', JBool True)]))),
                 Some (Response True (Some (JArr [JObj [(''id'', JNum 1)]]))))) initial)
      = config initial
   \<and> config initial \<noteq> JObj [(''dry_run'', JBool True)]
   \<and> logs (exec (fetchData (Some (Response True (Some JNull)),
                 Some (Response False (Some (JStr ''boom''))),
                 Some (Response True (Some (JObj [(''dry_run'', JBool True)]))),
                 Some (Response True (Some (JArr [JObj [(''id'', JNum 1)]]))))) initial)
      = logs initial
   \<and> logs initial \<noteq> JArr [JObj [(''id'', JNum 1)]]"
  by (simp add: fetchData_def fetchData_try_def stats_block_def employees_block_def
        config_block_def logs_block_def await_json_def run_simps stats_of_statsData_def
        exec_def initial_def)

section \<open>Refresh after a successful write (C3)\<close>

lemma sibling_writes_refresh_once:
  assumes "ok response"
  shows "count_list (addEmployee st (Some response)) CallFetchData = 1
       \<and> count_list (updateEmployee eid updates (Some response)) CallFetchData = 1
       \<and> count_list (deleteEmployee eid True (Some response)) CallFetchData = 1
       \<and> count_list (updateConfig newConfig (Some response)) CallFetchData = 1
       \<and> count_list (triggerUpdate True (Some response)) CallFetchData = 0
       \<and> Await \<in> set (takeWhile (\<lambda>a. a \<noteq> CallFetchData) (addEmployee st (Some response)))
       \<and> Await \<in> set (takeWhile (\<lambda>a. a \<noteq> CallFetchData)
                        (updateEmployee eid updates (Some response)))
       \<and> Await \<in> set (takeWhile (\<lambda>a. a \<noteq> CallFetchData)
                        (deleteEmployee eid True (Some response)))
       \<and> Await \<in> set (takeWhile (\<lambda>a. a \<noteq> CallFetchData)
                        (updateConfig newConfig (Some response)))"
  using assms
  by (simp add: addEmployee_def updateEmployee_def deleteEmployee_def updateConfig_def
                triggerUpdate_def run_simps)


section \<open>A write with a non-success response (C4)\<close>

lemma failed_addEmployee_alerts:
  assumes "\<not> ok response"
  shows "filter is_alert (addEmployee st (Some response)) =
           [Alert (case json_body response of
                     None \<Rightarrow> ServerConnectionError
                   | Some error \<Rightarrow>
                       (case get_prop error ''detail'' of
                          Inl x \<Rightarrow> ServerConnectionError
                        | Inr None \<Rightarrow> CannotAddEmployee CheckId
                        | Inr (Some d) \<Rightarrow>
                            CannotAddEmployee (if truthy d then ServerDetail d else CheckId)))]"
  using assms
  by (auto simp: addEmployee_def run_simps await_json_def split: option.splits sum.splits)

lemma failed_write_no_refresh_no_mutation:
  assumes "\<not> ok response"
  shows "no_refresh_no_mutation (addEmployee st (Some response))
       \<and> no_refresh_no_mutation (updateEmployee eid updates (Some response))
       \<and> no_refresh_no_mutation (deleteEmployee eid confirmed (Some response))
       \<and> no_refresh_no_mutation (updateConfig newConfig (Some response))
       \<and> no_refresh_no_mutation (triggerUpdate confirmed (Some response))"
  using assms
  by (auto simp: addEmployee_def updateEmployee_def deleteEmployee_def updateConfig_def
                 triggerUpdate_def run_simps await_json_def no_refresh_no_mutation_def
           split: option.splits sum.splits)

lemma no_refresh_no_mutation_exec: "no_refresh_no_mutation tr \<Longrightarrow> exec tr st = st"
  by (simp add: no_refresh_no_mutation_def exec_no_setter)

text \<open>
  C4 at a failing patch. \<^verbatim>\<open>updateEmployee\<close> receives HTTP 404 with the body
  \<^verbatim>\<open>{"detail": "not found"}\<close>: after the request and the suspension on its response
  the handler does nothing at all. No alert is shown, so the server's detail never
  reaches the operator, although \<^verbatim>\<open>addEmployee\<close> shows it in the same situation.
\<close>

theorem updateEmployee_failure_not_surfaced:
  "\<not> ok (Response False (Some (JObj [(''detail'', JStr ''not found'')])))
   \<and> updateEmployee (JNum 7) (JObj [(''active'', JBool True)])
        (Some (Response False (Some (JObj [(''detail'', JStr ''not found'')]))))
      = [Fetch (PATCH_employee (JNum 7) (JObj [(''active'', JBool True)])), Await]
   \<and> filter is_alert (updateEmployee (JNum 7) (JObj [(''active'', JBool True)])
        (Some (Response False (Some (JObj [(''detail'', JStr ''not found'')]))))) = []
   \<and> filter is_alert (addEmployee initial
        (Some (Response False (Some (JObj [(''detail'', JStr ''not found'')])))))
      = [Alert (CannotAddEmployee (ServerDetail (JStr ''not found'')))]"
  by (simp add: updateEmployee_def addEmployee_def run_simps await_json_def)


section \<open>A patch and the row being edited (C5)\<close>

text \<open>
  C5, as the code has it. The edit state is the single cell \<^verbatim>\<open>editingEmployee\<close>
  (the draft lives in the row's input element, not in the state). Every successful patch,
  the active-toggle of another row included, sets it to \<^verbatim>\<open>null\<close>: the row being
  edited leaves edit mode. A patch whose response is non-success, or that gets no
  response, leaves the edit state as it was.
\<close>

theorem successful_patch_leaves_edit_mode:
  "editingEmployee (exec (updateEmployee eid updates res) st) =
     (case res of
        None \<Rightarrow> editingEmployee st
      | Some response \<Rightarrow> if ok response then JNull else editingEmployee st)
   \<and> editingEmployee (exec (toggleActive eid active res) st) =
     (case res of
        None \<Rightarrow> editingEmployee st
      | Some response \<Rightarrow> if ok response then JNull else editingEmployee st)"
  by (auto simp: toggleActive_def updateEmployee_def run_simps exec_def split: option.splits)

text \<open>
  C5 as stated fails: while row 1 is being edited, a successful active-toggle of row 2
  resets the edit state.
\<close>

theorem toggle_other_row_counterexample:
  "JNum 2 \<noteq> JNum 1
   \<and> editingEmployee (initial\<lparr>editingEmployee := JNum 1\<rparr>) = JNum 1
   \<and> editingEmployee (exec (toggleActive (JNum 2) False (Some (Response True (Some JNull))))
                         (initial\<lparr>editingEmployee := JNum 1\<rparr>)) = JNull"
  by (simp add: toggleActive_def updateEmployee_def run_simps exec_def)

section \<open>What a cycle can do to the state\<close>

lemma set_then_run: "set (fst (then_run p q)) \<subseteq> set (fst p) \<union> set (fst q)"
  by (auto simp: then_run_def split: option.splits)

lemma set_try_catch: "set (try_catch p h) \<subseteq> set (fst p) \<union> set h"
  by (auto simp: try_catch_def split: option.splits)

lemma stats_block_actions:
  "a \<in> set (fst (stats_block r)) \<Longrightarrow>
     a = Await \<or> (\<exists>v. a = SetStats v \<and> fetched_stats (Some r) = Some v)"
  by (auto simp: stats_block_def await_json_def run_simps fetched_stats_def fetched_def
           split: if_splits option.splits sum.splits)

lemma employees_block_actions:
  "a \<in> set (fst (employees_block r)) \<Longrightarrow>
     a = Await \<or> (\<exists>v. a = SetEmployees v \<and> fetched (Some r) = Some v)"
  by (auto simp: employees_block_def await_json_def run_simps fetched_def
           split: if_splits option.splits)

lemma config_block_actions:
  "a \<in> set (fst (config_block r)) \<Longrightarrow>
     a = Await \<or> (\<exists>v. a = SetConfig v \<and> fetched (Some r) = Some v)"
  by (auto simp: config_block_def await_json_def run_simps fetched_def
           split: if_splits option.splits)

lemma logs_block_actions:
  "a \<in> set (fst (logs_block r)) \<Longrightarrow>
     a = Await \<or> (\<exists>v. a = SetLogs v \<and> fetched (Some r) = Some v)"
  by (auto simp: logs_block_def await_json_def run_simps fetched_def
           split: if_splits option.splits)

lemma fetchData_actions:
  assumes "a \<in> set (fetchData rs)"
  shows "fixed_action a
       \<or> (\<exists>v. a = SetStats v \<and> fetched_stats (statsRes_of rs) = Some v)
       \<or> (\<exists>v. a = SetEmployees v \<and> fetched (employeesRes_of rs) = Some v)
       \<or> (\<exists>v. a = SetConfig v \<and> fetched (configRes_of rs) = Some v)
       \<or> (\<exists>v. a = SetLogs v \<and> fetched (logsRes_of rs) = Some v)"
proof (cases "promise_all rs")
  case None
  then have "fetchData rs =
           [Fetch GET_stats, Fetch GET_employees, Fetch GET_config, Fetch (GET_logs 50), Await,
            ConsoleError ErrorFetchingData, SetLoading False]"
    by (simp add: fetchData_def fetchData_try_def run_simps)
  with assms show ?thesis by (auto simp: fixed_action_def)
next
  case (Some q)
  obtain s e c l where q: "q = (s, e, c, l)" by (cases q) auto
  have rs: "rs = (Some s, Some e, Some c, Some l)"
    using Some unfolding q by (auto elim: promise_all.elims)
  let ?tail = "then_run (stats_block s) (then_run (employees_block e)
                 (then_run (config_block c) (then_run (logs_block l) ([SetLoading False], None))))"
  have tail: "set (fst ?tail) \<subseteq> set (fst (stats_block s)) \<union> set (fst (employees_block e))
                 \<union> set (fst (config_block c)) \<union> set (fst (logs_block l)) \<union> {SetLoading False}"
    using set_then_run [of "stats_block s" "then_run (employees_block e)
                 (then_run (config_block c) (then_run (logs_block l) ([SetLoading False], None)))"]
          set_then_run [of "employees_block e"
                 "then_run (config_block c) (then_run (logs_block l) ([SetLoading False], None))"]
          set_then_run [of "config_block c" "then_run (logs_block l) ([SetLoading False], None)"]
          set_then_run [of "logs_block l" "([SetLoading False], None)"]
    by auto
  have "fetchData rs = try_catch
          ([Fetch GET_stats, Fetch GET_employees, Fetch GET_config, Fetch (GET_logs 50), Await]
             @ fst ?tail, snd ?tail)
          [ConsoleError ErrorFetchingData, SetLoading False]"
    unfolding rs by (simp add: fetchData_def fetchData_try_def run_simps)
  then have "set (fetchData rs) \<subseteq>
         {Fetch GET_stats, Fetch GET_employees, Fetch GET_config, Fetch (GET_logs 50), Await,
            ConsoleError ErrorFetchingData, SetLoading False} \<union> set (fst ?tail)"
    using set_try_catch [of "([Fetch GET_stats, Fetch GET_employees, Fetch GET_config,
             Fetch (GET_logs 50), Await] @ fst ?tail, snd ?tail)"
             "[ConsoleError ErrorFetchingData, SetLoading False]"]
    by auto
  with assms tail have "fixed_action a \<or> a \<in> set (fst (stats_block s))
      \<or> a \<in> set (fst (employees_block e)) \<or> a \<in> set (fst (config_block c))
      \<or> a \<in> set (fst (logs_block l))"
    unfolding fixed_action_def by blast
  then show ?thesis
    using stats_block_actions [of a s] employees_block_actions [of a e]
          config_block_actions [of a c] logs_block_actions [of a l]
    unfolding rs by (auto simp: fixed_action_def)
qed

section \<open>A refresh and the row being edited (C6)\<close>

lemma exec_keeps_editingEmployee:
  "(\<And>v. SetEditingEmployee v \<notin> set tr) \<Longrightarrow> editingEmployee (exec tr st) = editingEmployee st"
proof (induction tr arbitrary: st)
  case Nil
  then show ?case by (simp add: exec_Nil)
next
  case (Cons a tr)
  then show ?case by (cases a) (auto simp: exec_Cons)
qed

text \<open>
  C6, as the code has it. A fetch cycle never changes the edit state: after any cycle,
  \<^verbatim>\<open>editingEmployee\<close> is what it was before, also when the employee it names is
  absent from the new employee list.
\<close>

theorem fetchData_keeps_edit_target:
  "editingEmployee (exec (fetchData rs) st) = editingEmployee st"
proof (rule exec_keeps_editingEmployee)
  fix v
  show "SetEditingEmployee v \<notin> set (fetchData rs)"
    using fetchData_actions [of "SetEditingEmployee v" rs] by (auto simp: fixed_action_def)
qed

text \<open>
  C6 as stated fails: row 1 is being edited, the refreshed list holds rows 2 and 3 only,
  and the edit state still names row 1.
\<close>

theorem stale_edit_target_counterexample:
  "editingEmployee (initial\<lparr>employees := JArr [employee_row 1 ''Ann''], editingEmployee := JNum 1\<rparr>) = JNum 1
   \<and> JNum 1 \<in> set (row_ids (employees (initial\<lparr>employees := JArr [employee_row 1 ''Ann''], editingEmployee := JNum 1\<rparr>)))
   \<and> JNum 1 \<notin> set (row_ids (employees (exec (fetchData second_cycle)
          (initial\<lparr>employees := JArr [employee_row 1 ''Ann''], editingEmployee := JNum 1\<rparr>))))
   \<and> editingEmployee (exec (fetchData second_cycle)
          (initial\<lparr>employees := JArr [employee_row 1 ''Ann''], editingEmployee := JNum 1\<rparr>)) = JNum 1
   \<and> JNum 1 \<noteq> JNull"
  by (simp add: second_cycle_def employee_row_def row_ids_def map_filter_def fetchData_def
        fetchData_try_def stats_block_def employees_block_def config_block_def logs_block_def
        await_json_def run_simps stats_of_statsData_def exec_def initial_def)


section \<open>Confirmation before a destructive write (C7)\<close>

text \<open>
  C7. Deleting an employee and triggering a run first ask the operator to confirm: the
  confirmation dialog is the first action of either handler, so every network call comes
  after it. When the operator declines, the dialog is the only action: no network call is
  made and the state is unchanged.
\<close>

theorem confirmation_guards_destructive_writes:
  "(\<exists>rest. deleteEmployee eid confirmed res = Confirm ConfirmDeleteEmployee # rest
           \<and> (\<not> confirmed \<longrightarrow> rest = []))
   \<and> (\<exists>rest. triggerUpdate confirmed res' = Confirm ConfirmTriggerUpdate # rest
           \<and> (\<not> confirmed \<longrightarrow> rest = []))
   \<and> (\<not> confirmed \<longrightarrow>
        filter is_fetch (deleteEmployee eid confirmed res) = []
        \<and> filter is_fetch (triggerUpdate confirmed res') = []
        \<and> exec (deleteEmployee eid confirmed res) st = st
        \<and> exec (triggerUpdate confirmed res') st = st)"
  by (simp add: deleteEmployee_def triggerUpdate_def exec_def)

theorem confirmation_declined_witness:
  "deleteEmployee (JNum 7) False (Some (Response True None)) = [Confirm ConfirmDeleteEmployee]
   \<and> triggerUpdate False (Some (Response True None)) = [Confirm ConfirmTriggerUpdate]
   \<and> exec (deleteEmployee (JNum 7) False (Some (Response True None))) initial = initial"
  using confirmation_guards_destructive_writes
          [of "JNum 7" False "Some (Response True None)" "Some (Response True None)" initial]
  by auto


section \<open>The add-employee entry point sends what was entered (C8)\<close>

text \<open>
  C8, as the code has it. \<^verbatim>\<open>addEmployee\<close> performs no client-side check of the
  identifier: for every content of the input field, the empty string included, and
  whatever the server answers, its first action is the call \<^verbatim>\<open>POST /api/employees\<close>
  with the identifier as entered.
\<close>

theorem addEmployee_always_posts:
  "\<exists>rest. addEmployee st res =
     Fetch (POST_employees (JObj [(''employee_id'', JStr (newEmployeeId st))])) # Await # rest"
  by (auto simp: addEmployee_def run_simps await_json_def try_catch_def then_run_def
           split: option.splits sum.splits)


text \<open>
  C8 as stated fails: with the empty identifier of the initial state, the request is sent,
  with \<^verbatim>\<open>employee_id\<close> the empty string.
\<close>

theorem addEmployee_empty_id_counterexample:
  "newEmployeeId initial = []
   \<and> filter is_fetch (addEmployee initial (Some (Response False (Some (JObj [(''detail'', JStr ''employee_id required'')])))))
     = [Fetch (POST_employees (JObj [(''employee_id'', JStr [])]))]"
  by (simp add: addEmployee_def run_simps await_json_def initial_def)


section \<open>Snapshots across cycles (C10)\<close>

lemma exec_stats_origin:
  "stats (exec tr st) = stats st \<or> SetStats (stats (exec tr st)) \<in> set tr"
proof (induction tr arbitrary: st)
  case Nil
  then show ?case by (simp add: exec_Nil)
next
  case (Cons a tr)
  from Cons.IH [of "apply_action a st"] show ?case by (cases a) (auto simp: exec_Cons)
qed

lemma exec_employees_origin:
  "employees (exec tr st) = employees st \<or> SetEmployees (employees (exec tr st)) \<in> set tr"
proof (induction tr arbitrary: st)
  case Nil
  then show ?case by (simp add: exec_Nil)
next
  case (Cons a tr)
  from Cons.IH [of "apply_action a st"] show ?case by (cases a) (auto simp: exec_Cons)
qed

lemma exec_config_origin:
  "config (exec tr st) = config st \<or> SetConfig (config (exec tr st)) \<in> set tr"
proof (induction tr arbitrary: st)
  case Nil
  then show ?case by (simp add: exec_Nil)
next
  case (Cons a tr)
  from Cons.IH [of "apply_action a st"] show ?case by (cases a) (auto simp: exec_Cons)
qed

lemma exec_logs_origin:
  "logs (exec tr st) = logs st \<or> SetLogs (logs (exec tr st)) \<in> set tr"
proof (induction tr arbitrary: st)
  case Nil
  then show ?case by (simp add: exec_Nil)
next
  case (Cons a tr)
  from Cons.IH [of "apply_action a st"] show ?case by (cases a) (auto simp: exec_Cons)
qed

text \<open>
  C10, as the code has it. The four slices are four state cells, set one after the other
  with a suspension point before each. Whatever the cycles and however their actions
  interleave (\<open>tr\<close> is any sequence of actions taken from the traces of the cycles, so any
  prefix of any interleaving), each slice on its own is either the value it had at the
  start or the value that one of the cycles fetched for that slice. Different slices may
  come from different cycles.
\<close>

theorem slices_come_from_cycles:
  assumes "set tr \<subseteq> (\<Union>rs\<in>set cycles. set (fetchData rs))"
  shows "(stats (exec tr st) = stats st
            \<or> (\<exists>rs\<in>set cycles. fetched_stats (statsRes_of rs) = Some (stats (exec tr st))))
       \<and> (employees (exec tr st) = employees st
            \<or> (\<exists>rs\<in>set cycles. fetched (employeesRes_of rs) = Some (employees (exec tr st))))
       \<and> (config (exec tr st) = config st
            \<or> (\<exists>rs\<in>set cycles. fetched (configRes_of rs) = Some (config (exec tr st))))
       \<and> (logs (exec tr st) = logs st
            \<or> (\<exists>rs\<in>set cycles. fetched (logsRes_of rs) = Some (logs (exec tr st))))"
proof (intro conjI)
  show "stats (exec tr st) = stats st
            \<or> (\<exists>rs\<in>set cycles. fetched_stats (statsRes_of rs) = Some (stats (exec tr st)))"
  proof (rule disjE [OF exec_stats_origin [of tr st]])
    assume "SetStats (stats (exec tr st)) \<in> set tr"
    with assms obtain rs where "rs \<in> set cycles" "SetStats (stats (exec tr st)) \<in> set (fetchData rs)"
      by blast
    with fetchData_actions [of "SetStats (stats (exec tr st))" rs] show ?thesis
      by (auto simp: fixed_action_def)
  qed simp
  show "employees (exec tr st) = employees st
            \<or> (\<exists>rs\<in>set cycles. fetched (employeesRes_of rs) = Some (employees (exec tr st)))"
  proof (rule disjE [OF exec_employees_origin [of tr st]])
    assume "SetEmployees (employees (exec tr st)) \<in> set tr"
    with assms obtain rs where "rs \<in> set cycles" "SetEmployees (employees (exec tr st)) \<in> set (fetchData rs)"
      by blast
    with fetchData_actions [of "SetEmployees (employees (exec tr st))" rs] show ?thesis
      by (auto simp: fixed_action_def)
  qed simp
  show "config (exec tr st) = config st
            \<or> (\<exists>rs\<in>set cycles. fetched (configRes_of rs) = Some (config (exec tr st)))"
  proof (rule disjE [OF exec_config_origin [of tr st]])
    assume "SetConfig (config (exec tr st)) \<in> set tr"
    with assms obtain rs where "rs \<in> set cycles" "SetConfig (config (exec tr st)) \<in> set (fetchData rs)"
      by blast
    with fetchData_actions [of "SetConfig (config (exec tr st))" rs] show ?thesis
      by (auto simp: fixed_action_def)
  qed simp
  show "logs (exec tr st) = logs st
            \<or> (\<exists>rs\<in>set cycles. fetched (logsRes_of rs) = Some (logs (exec tr st)))"
  proof (rule disjE [OF exec_logs_origin [of tr st]])
    assume "SetLogs (logs (exec tr st)) \<in> set tr"
    with assms obtain rs where "rs \<in> set cycles" "SetLogs (logs (exec tr st)) \<in> set (fetchData rs)"
      by blast
    with fetchData_actions [of "SetLogs (logs (exec tr st))" rs] show ?thesis
      by (auto simp: fixed_action_def)
  qed simp
qed

theorem slices_come_from_cycles_witness:
  "employees (exec (take 7 (fetchData second_cycle) @ fetchData first_cycle) initial)
     = employees initial
   \<or> (\<exists>rs\<in>set [first_cycle, second_cycle].
         fetched (employeesRes_of rs)
           = Some (employees (exec (take 7 (fetchData second_cycle) @ fetchData first_cycle) initial)))"
proof -
  have h: "set (take 7 (fetchData second_cycle) @ fetchData first_cycle)
             \<subseteq> (\<Union>rs\<in>set [first_cycle, second_cycle]. set (fetchData rs))"
    using set_take_subset [of 7 "fetchData second_cycle"] by auto
  from slices_come_from_cycles [OF h, of initial] show ?thesis by blast
qed

lemma fetchData_first_cycle:
  "fetchData first_cycle =
     [Fetch GET_stats, Fetch GET_employees, Fetch GET_config, Fetch (GET_logs 50), Await,
      Await, SetStats \<lparr> total_employees = JNum 1, active_employees = JNum 0, last_run = JNull,
         next_run = JNull, total_hours_added_this_week = JNum 0,
         total_hours_added_this_month = JNum 0 \<rparr>,
      Await, SetEmployees (JArr [employee_row 1 ''Ann'']),
      Await, SetConfig (JObj [(''dry_run'', JBool True)]),
      Await, SetLogs (JArr []),
      SetLoading False]"
  by (simp add: first_cycle_def fetchData_def
        fetchData_try_def stats_block_def employees_block_def config_block_def logs_block_def
        await_json_def run_simps stats_of_statsData_def)

lemma fetchData_second_cycle:
  "fetchData second_cycle =
     [Fetch GET_stats, Fetch GET_employees, Fetch GET_config, Fetch (GET_logs 50), Await,
      Await, SetStats \<lparr> total_employees = JNum 2, active_employees = JNum 0, last_run = JNull,
         next_run = JNull, total_hours_added_this_week = JNum 0,
         total_hours_added_this_month = JNum 0 \<rparr>,
      Await, SetEmployees (JArr [employee_row 2 ''Bob'', employee_row 3 ''Cyd'']),
      Await, SetConfig (JObj [(''dry_run'', JBool False)]),
      Await, SetLogs (JArr [JObj [(''id'', JNum 1)]]),
      SetLoading False]"
  by (simp add: second_cycle_def fetchData_def
        fetchData_try_def stats_block_def employees_block_def config_block_def logs_block_def
        await_json_def run_simps stats_of_statsData_def)

text \<open>
  C10 as stated fails. The first cycle has completed and the second has just called
  \<^verbatim>\<open>setStats\<close>; its next action is the suspension on \<^verbatim>\<open>employeesRes.json()\<close>. The
  Snapshot at that point has the stats of the second cycle and the employee list of the
  first: it is neither the initial Snapshot nor the result of the first or of the second
  cycle.
\<close>

theorem hybrid_snapshot_counterexample:
  "fetchData second_cycle ! 7 = Await
   \<and> snapshot (exec (take 7 (fetchData second_cycle)) (exec (fetchData first_cycle) initial))
       \<notin> {snapshot initial,
          snapshot (exec (fetchData first_cycle) initial),
          snapshot (exec (fetchData second_cycle) (exec (fetchData first_cycle) initial))}
   \<and> stats (exec (take 7 (fetchData second_cycle)) (exec (fetchData first_cycle) initial))
       = stats (exec (fetchData second_cycle) (exec (fetchData first_cycle) initial))
   \<and> employees (exec (take 7 (fetchData second_cycle)) (exec (fetchData first_cycle) initial))
       = employees (exec (fetchData first_cycle) initial)
   \<and> employees (exec (fetchData first_cycle) initial)
       \<noteq> employees (exec (fetchData second_cycle) (exec (fetchData first_cycle) initial))"
  unfolding fetchData_first_cycle fetchData_second_cycle
  by (simp add: exec_def snapshot_def initial_def employee_row_def)

end
